theory Spec2Isabelle
  imports Main "HOL-Library.Word"
begin

section \<open>JavaScript strings and numbers\<close>

text \<open>
  A JavaScript string is a sequence of UTF-16 code units. String literals of the source
  that are plain ASCII are written with \<open>lit\<close>; the emoji and the rupee sign of the
  message template are written as their code units.
\<close>

type_synonym code_unit = "16 word"
type_synonym jsstring = "code_unit list"

definition lit :: "string \<Rightarrow> jsstring" where
  "lit s = map (\<lambda>c. of_nat (of_char c)) s"

text \<open>
  The numbers of the program are integers. A JavaScript Number is a double, which holds
  every integer of magnitude at most \<open>2 ^ 53\<close> exactly; \<open>Inexact\<close> stands for any value
  beyond that range, whose rounding and printing are not modelled.
\<close>

datatype number = NaN | Num int | Inexact

definition number_of_int :: "int \<Rightarrow> number" where
  "number_of_int n = (if \<bar>n\<bar> \<le> 2 ^ 53 then Num n else Inexact)"

definition plus_number :: "number \<Rightarrow> number \<Rightarrow> number" where
  "plus_number x y =
     (case x of
        NaN \<Rightarrow> NaN
      | Num a \<Rightarrow> (case y of NaN \<Rightarrow> NaN | Num b \<Rightarrow> number_of_int (a + b) | Inexact \<Rightarrow> Inexact)
      | Inexact \<Rightarrow> (case y of NaN \<Rightarrow> NaN | _ \<Rightarrow> Inexact))"

text \<open>\<open>x || 0\<close> on a number: \<open>NaN\<close> and zero are falsy.\<close>

fun or_zero :: "number \<Rightarrow> number" where
  "or_zero NaN = Num 0"
| "or_zero (Num n) = Num n"
| "or_zero Inexact = Inexact"

text \<open>\<open>a || b\<close> on strings, where \<open>a\<close> may be \<open>undefined\<close>: the empty string is falsy.\<close>

fun or_string :: "jsstring option \<Rightarrow> jsstring \<Rightarrow> jsstring" where
  "or_string None b = b"
| "or_string (Some a) b = (if a = [] then b else a)"

text \<open>White space and line terminators, as \<open>trim\<close> and \<open>parseInt\<close> strip them.\<close>

definition is_white_space :: "code_unit \<Rightarrow> bool" where
  "is_white_space c = (let n = unat c in
     n = 0x09 \<or> n = 0x0A \<or> n = 0x0B \<or> n = 0x0C \<or> n = 0x0D \<or> n = 0x20 \<or> n = 0xA0 \<or>
     n = 0x1680 \<or> (0x2000 \<le> n \<and> n \<le> 0x200A) \<or> n = 0x2028 \<or> n = 0x2029 \<or>
     n = 0x202F \<or> n = 0x205F \<or> n = 0x3000 \<or> n = 0xFEFF)"

definition trim :: "jsstring \<Rightarrow> jsstring" where
  "trim s = rev (dropWhile is_white_space (rev (dropWhile is_white_space s)))"

subsection \<open>parseInt with no radix argument\<close>

definition digit_value :: "code_unit \<Rightarrow> nat option" where
  "digit_value c = (let n = unat c in
     if 0x30 \<le> n \<and> n \<le> 0x39 then Some (n - 0x30)
     else if 0x61 \<le> n \<and> n \<le> 0x7A then Some (n - 0x61 + 10)
     else if 0x41 \<le> n \<and> n \<le> 0x5A then Some (n - 0x41 + 10)
     else None)"

definition is_radix_digit :: "nat \<Rightarrow> code_unit \<Rightarrow> bool" where
  "is_radix_digit R c = (case digit_value c of Some v \<Rightarrow> v < R | None \<Rightarrow> False)"

definition radix_value :: "nat \<Rightarrow> jsstring \<Rightarrow> nat" where
  "radix_value R Z =
     foldl (\<lambda>acc c. case digit_value c of Some v \<Rightarrow> acc * R + v | None \<Rightarrow> acc) 0 Z"

text \<open>
  The steps of the language definition: strip leading white space, read a sign, strip a
  \<open>0x\<close> or \<open>0X\<close> prefix (which selects radix 16), take the longest prefix of digits of
  the radix; no digit at all gives \<open>NaN\<close>.
\<close>

definition parseInt :: "jsstring \<Rightarrow> number" where
  "parseInt string =
     (let S = dropWhile is_white_space string;
          sign = (case S of c # _ \<Rightarrow> if c = 0x2D then - 1 else 1 | [] \<Rightarrow> (1 :: int));
          S1 = (case S of c # r \<Rightarrow> if c = 0x2B \<or> c = 0x2D then r else S | [] \<Rightarrow> []);
          hex = (case S1 of a # b # _ \<Rightarrow> a = 0x30 \<and> (b = 0x78 \<or> b = 0x58) | _ \<Rightarrow> False);
          R = (if hex then 16 else 10);
          S2 = (if hex then drop 2 S1 else S1);
          Z = takeWhile (is_radix_digit R) S2
      in if Z = [] then NaN else number_of_int (sign * int (radix_value R Z)))"

text \<open>Number to string, for the integers the model holds exactly.\<close>

fun digits :: "nat \<Rightarrow> jsstring" where
  "digits n =
     (if n < 10 then [of_nat (0x30 + n)] else digits (n div 10) @ [of_nat (0x30 + n mod 10)])"

declare digits.simps [simp del]

definition int_toString :: "int \<Rightarrow> jsstring" where
  "int_toString n = (if n < 0 then 0x2D # digits (nat (- n)) else digits (nat n))"

definition toString :: "number \<Rightarrow> jsstring option" where
  "toString x =
     (case x of NaN \<Rightarrow> Some (lit ''NaN'') | Num n \<Rightarrow> Some (int_toString n) | Inexact \<Rightarrow> None)"

text \<open>
  What a step of the program does: it returns; or \<open>encodeURIComponent\<close> throws a
  \<open>URIError\<close>, or a call or property read on a value that has no such member throws a
  \<open>TypeError\<close> (nothing catches either); or the model stops, because a number left the
  range it holds exactly, or because a lookup in the plan table went on into a built-in
  object of the engine.
\<close>

datatype 'a outcome = Returns 'a | URIError | TypeError | Beyond_exact_range | Beyond_plan_table

fun and_then :: "'a outcome \<Rightarrow> ('a \<Rightarrow> 'b outcome) \<Rightarrow> 'b outcome" where
  "and_then (Returns x) f = f x"
| "and_then URIError f = URIError"
| "and_then TypeError f = TypeError"
| "and_then Beyond_exact_range f = Beyond_exact_range"
| "and_then Beyond_plan_table f = Beyond_plan_table"

subsection \<open>encodeURIComponent\<close>

definition is_unescaped :: "code_unit \<Rightarrow> bool" where
  "is_unescaped c = (let n = unat c in
     (0x41 \<le> n \<and> n \<le> 0x5A) \<or> (0x61 \<le> n \<and> n \<le> 0x7A) \<or> (0x30 \<le> n \<and> n \<le> 0x39) \<or>
     n = 0x2D \<or> n = 0x5F \<or> n = 0x2E \<or> n = 0x21 \<or> n = 0x7E \<or> n = 0x2A \<or> n = 0x27 \<or>
     n = 0x28 \<or> n = 0x29)"

definition is_high_surrogate :: "code_unit \<Rightarrow> bool" where
  "is_high_surrogate c = (0xD800 \<le> unat c \<and> unat c \<le> 0xDBFF)"

definition is_low_surrogate :: "code_unit \<Rightarrow> bool" where
  "is_low_surrogate c = (0xDC00 \<le> unat c \<and> unat c \<le> 0xDFFF)"

definition code_point :: "code_unit \<Rightarrow> code_unit \<Rightarrow> nat" where
  "code_point hi lo = 0x10000 + (unat hi - 0xD800) * 0x400 + (unat lo - 0xDC00)"

definition utf8 :: "nat \<Rightarrow> nat list" where
  "utf8 cp =
     (if cp < 0x80 then [cp]
      else if cp < 0x800 then [0xC0 + cp div 0x40, 0x80 + cp mod 0x40]
      else if cp < 0x10000 then
        [0xE0 + cp div 0x1000, 0x80 + cp div 0x40 mod 0x40, 0x80 + cp mod 0x40]
      else
        [0xF0 + cp div 0x40000, 0x80 + cp div 0x1000 mod 0x40, 0x80 + cp div 0x40 mod 0x40,
         0x80 + cp mod 0x40])"

definition hex_digit :: "nat \<Rightarrow> code_unit" where
  "hex_digit d = (if d < 10 then of_nat (0x30 + d) else of_nat (0x41 + (d - 10)))"

definition percent_octet :: "nat \<Rightarrow> jsstring" where
  "percent_octet b = [0x25, hex_digit (b div 16), hex_digit (b mod 16)]"

definition escape :: "nat \<Rightarrow> jsstring" where
  "escape cp = concat (map percent_octet (utf8 cp))"

text \<open>\<open>None\<close> is the \<open>URIError\<close> thrown at a surrogate without its partner.\<close>

fun encodeURIComponent :: "jsstring \<Rightarrow> jsstring option" where
  "encodeURIComponent [] = Some []"
| "encodeURIComponent (c # cs) =
     (if is_unescaped c then map_option ((#) c) (encodeURIComponent cs)
      else if is_high_surrogate c then
        (case cs of
           d # ds \<Rightarrow>
             if is_low_surrogate d
             then map_option ((@) (escape (code_point c d))) (encodeURIComponent ds)
             else None
         | [] \<Rightarrow> None)
      else if is_low_surrogate c then None
      else map_option ((@) (escape (unat c))) (encodeURIComponent cs))"

text \<open>
  What \<open>encodeURIComponent\<close> writes for one code unit that is not a surrogate; a string
  without surrogates is encoded unit by unit.
\<close>

definition is_surrogate :: "code_unit \<Rightarrow> bool" where
  "is_surrogate c = (is_high_surrogate c \<or> is_low_surrogate c)"

definition escape_unit :: "code_unit \<Rightarrow> jsstring" where
  "escape_unit c = (if is_unescaped c then [c] else escape (unat c))"

section \<open>Configuration and form state\<close>

definition WHATSAPP_NUMBER :: jsstring where
  "WHATSAPP_NUMBER = lit ''919360626529''"

definition DELIVERY_CHARGE :: int where
  "DELIVERY_CHARGE = 50"

definition MERCHANT_UPI :: jsstring where
  "MERCHANT_UPI = lit ''sakthi000505@okhdfcbank''"

definition MERCHANT_NAME :: jsstring where
  "MERCHANT_NAME = lit ''SAKTHI''"

text \<open>
  The plan table: request type, then network, then the list of plan prices in the order of
  declaration.
\<close>

definition PLANS :: "(jsstring \<times> (jsstring \<times> jsstring list) list) list" where
  "PLANS =
     [(lit ''NEW'',
         [(lit ''AIRTEL'', [lit ''249'', lit ''349'']),
          (lit ''JIO'', [lit ''349'']),
          (lit ''VI'', [lit ''199'', lit ''299''])]),
      (lit ''MNP'',
         [(lit ''AIRTEL'', [lit ''199'', lit ''349'']),
          (lit ''JIO'', [lit ''349'']),
          (lit ''VI'', [lit ''199'', lit ''299''])]),
      (lit ''REPLACEMENT'',
         [(lit ''AIRTEL'', [lit ''200'']),
          (lit ''VI'', [lit ''200''])])]"

text \<open>
  The table and its three inner objects are plain objects, so a property read with a name
  that is not their own goes on to \<open>Object.prototype\<close>: eleven of its names read a
  method, given here with the \<open>length\<close> of the function, and \<open>__proto__\<close> reads the
  prototype object itself. A read on one of these built-in values in turn depends on the
  engine's objects and is where the model stops (\<open>Beyond_table\<close>).
\<close>

datatype plans_value =
    Plan_list "jsstring list"
  | Builtin_function nat
  | Object_prototype
  | Beyond_table

definition object_prototype :: "(jsstring \<times> plans_value) list" where
  "object_prototype =
     [(lit ''constructor'', Builtin_function 1),
      (lit ''hasOwnProperty'', Builtin_function 1),
      (lit ''isPrototypeOf'', Builtin_function 1),
      (lit ''propertyIsEnumerable'', Builtin_function 1),
      (lit ''toLocaleString'', Builtin_function 0),
      (lit ''toString'', Builtin_function 0),
      (lit ''valueOf'', Builtin_function 0),
      (lit ''__defineGetter__'', Builtin_function 2),
      (lit ''__defineSetter__'', Builtin_function 2),
      (lit ''__lookupGetter__'', Builtin_function 1),
      (lit ''__lookupSetter__'', Builtin_function 1),
      (lit ''__proto__'', Object_prototype)]"

definition inherited_names :: "jsstring list" where
  "inherited_names = map fst object_prototype"

text \<open>
  The form state. At run time every field is a string: the type annotations of \<open>type\<close> and
  \<open>network\<close> are not checked when the extraction is merged in.
\<close>

record form_data =
  name :: jsstring
  mobile :: jsstring
  type :: jsstring
  network :: jsstring
  plan :: jsstring
  address :: jsstring
  locationLink :: jsstring
  paymentMethod :: jsstring
  transactionId :: jsstring

definition initialFormData :: form_data where
  "initialFormData =
     \<lparr>name = [], mobile = [], type = lit ''NEW'', network = lit ''AIRTEL'', plan = [],
      address = [], locationLink = [], paymentMethod = lit ''Cash on Delivery'',
      transactionId = []\<rparr>"

section \<open>Plans\<close>

text \<open>
  \<open>PLANS[formData.type]?.[formData.network] || []\<close>: a name that is found nowhere reads
  \<open>undefined\<close>, which gives the empty array; every built-in value is truthy and is
  returned as it is.
\<close>

definition getAvailablePlans :: "form_data \<Rightarrow> plans_value" where
  "getAvailablePlans formData =
     (case map_of PLANS (type formData) of
        Some byNetwork \<Rightarrow>
          (case map_of byNetwork (network formData) of
             Some plans \<Rightarrow> Plan_list plans
           | None \<Rightarrow>
               (case map_of object_prototype (network formData) of
                  Some builtin \<Rightarrow> builtin
                | None \<Rightarrow> Plan_list []))
      | None \<Rightarrow>
          (case map_of object_prototype (type formData) of
             Some builtin \<Rightarrow> Beyond_table
           | None \<Rightarrow> Plan_list []))"

text \<open>
  The part of the component's render that can throw, the options of the plan select, by
  their values: \<open>getAvailablePlans().length === 0\<close> gives the one option without a value,
  and otherwise \<open>getAvailablePlans().map\<close> is called, which only an array has.
\<close>

definition render :: "form_data \<Rightarrow> jsstring list outcome" where
  "render formData =
     (case getAvailablePlans formData of
        Plan_list plans \<Rightarrow> Returns (if length plans = 0 then [[]] else plans)
      | Builtin_function n \<Rightarrow> if n = 0 then Returns [[]] else TypeError
      | Object_prototype \<Rightarrow> TypeError
      | Beyond_table \<Rightarrow> Beyond_plan_table)"

text \<open>
  The body of the effect that keeps the plan valid, as a function of the form state. A
  function has a \<open>length\<close> but no \<open>includes\<close>; the prototype object has neither, and
  \<open>undefined\<close> is neither greater than nor equal to 0.
\<close>

definition planEffect :: "form_data \<Rightarrow> form_data outcome" where
  "planEffect formData =
     (case getAvailablePlans formData of
        Plan_list availablePlans \<Rightarrow>
          Returns
            (if length availablePlans > 0 \<and> plan formData \<notin> set availablePlans
             then formData\<lparr>plan := availablePlans ! 0\<rparr>
             else if length availablePlans = 0 then formData\<lparr>plan := []\<rparr>
             else formData)
      | Builtin_function n \<Rightarrow> if n > 0 then TypeError else Returns (formData\<lparr>plan := []\<rparr>)
      | Object_prototype \<Rightarrow> Returns formData
      | Beyond_table \<Rightarrow> Beyond_plan_table)"

text \<open>
  \<open>setFormData\<close> with an updater, followed by the render it causes and, when the render
  went through, by the effect: the effect is declared with the dependencies
  \<open>[formData.type, formData.network]\<close>, so it runs again only when one of the two changed.
  An error thrown while rendering is not caught anywhere.
\<close>

definition setFormData :: "(form_data \<Rightarrow> form_data) \<Rightarrow> form_data \<Rightarrow> form_data outcome" where
  "setFormData update prev =
     (let next = update prev
      in and_then (render next)
           (\<lambda>_. if type next = type prev \<and> network next = network prev then Returns next
                else planEffect next))"

text \<open>The first render: the effect runs once on the initial state.\<close>

definition mounted :: form_data where
  "mounted = (case planEffect initialFormData of Returns formData \<Rightarrow> formData | _ \<Rightarrow> initialFormData)"

section \<open>Price and payment QR code\<close>

definition getTotalPrice :: "form_data \<Rightarrow> number" where
  "getTotalPrice formData =
     (let planPrice = or_zero (parseInt (plan formData))
      in plus_number planPrice (Num DELIVERY_CHARGE))"

text \<open>\<open>amount <= 0\<close>; a comparison with \<open>NaN\<close> is false.\<close>

definition le_zero :: "number \<Rightarrow> bool" where
  "le_zero x = (case x of Num n \<Rightarrow> n \<le> 0 | _ \<Rightarrow> False)"

text \<open>The template string \<open>upiLink\<close>, given the amount as text.\<close>

definition upiLink :: "jsstring \<Rightarrow> jsstring option" where
  "upiLink amount =
     (case encodeURIComponent MERCHANT_NAME of
        None \<Rightarrow> None
      | Some pn \<Rightarrow>
          Some (lit ''upi://pay?pa='' @ MERCHANT_UPI @ lit ''&pn='' @ pn @ lit ''&am='' @ amount @
                lit ''&cu=INR''))"

definition getQrCodeUrl :: "form_data \<Rightarrow> jsstring outcome" where
  "getQrCodeUrl formData =
     (let amount = getTotalPrice formData
      in if amount = Inexact then Beyond_exact_range
         else if le_zero amount then Returns []
         else
           (case toString amount of
              None \<Rightarrow> Beyond_exact_range
            | Some amountText \<Rightarrow>
                (case upiLink amountText of
                   None \<Rightarrow> URIError
                 | Some link \<Rightarrow>
                     (case encodeURIComponent link of
                        None \<Rightarrow> URIError
                      | Some data \<Rightarrow>
                          Returns
                            (lit ''https://api.qrserver.com/v1/create-qr-code/?size=200x200&data='' @
                             data)))))"

section \<open>AI auto-fill\<close>

text \<open>The vocabularies that \<open>extractionSchema\<close> declares for the three enumerated fields.\<close>

definition requestType_enum :: "jsstring list" where
  "requestType_enum = [lit ''NEW'', lit ''MNP'', lit ''REPLACEMENT'']"

definition network_enum :: "jsstring list" where
  "network_enum = [lit ''AIRTEL'', lit ''JIO'', lit ''VI'']"

definition paymentMethod_enum :: "jsstring list" where
  "paymentMethod_enum = [lit ''UPI'', lit ''Card'', lit ''Cash on Delivery'']"

text \<open>
  The parsed reply, seen through its property reads: a property that is missing reads as
  \<open>undefined\<close> (\<open>None\<close>). The schema types every property as a string, and the model keeps
  to string values.
\<close>

type_synonym extraction = "string \<rightharpoonup> jsstring"

text \<open>The updater passed to \<open>setFormData\<close>; \<open>locationLink\<close> comes from the spread of \<open>prev\<close>.\<close>

definition reconcile :: "extraction \<Rightarrow> form_data \<Rightarrow> form_data" where
  "reconcile extracted prev =
     prev\<lparr>name := or_string (extracted ''customerName'') (name prev),
          mobile := or_string (extracted ''mobileNumber'') (mobile prev),
          type := or_string (extracted ''requestType'') (type prev),
          network := or_string (extracted ''network'') (network prev),
          plan := or_string (extracted ''planAmount'') (plan prev),
          address := or_string (extracted ''address'') (address prev),
          paymentMethod := or_string (extracted ''paymentMethod'') (paymentMethod prev),
          transactionId := or_string (extracted ''transactionId'') (transactionId prev)\<rparr>"

text \<open>
  The awaited call either rejects or resolves with a reply whose \<open>text\<close> may be
  \<open>undefined\<close>. \<open>JSON.parse\<close> is a parameter of the handler: \<open>None\<close> where it throws, and
  otherwise the parsed value as its property reads show it. A value that is not an object
  has none of the properties. A property read on \<open>null\<close> throws a \<open>TypeError\<close>; the reads
  are in the updater, which runs with the render, outside the handler's \<open>try\<close>.
\<close>

datatype parsed = Null | Object extraction

datatype ai_response = Rejected | Resolved "jsstring option"

record app =
  formData :: form_data
  rawInput :: jsstring
  isAiLoading :: bool

definition autofill_alert :: jsstring where
  "autofill_alert = lit ''Could not auto-fill details. Please try again or fill manually.''"

text \<open>
  The handler, with the render that follows it: the new state and the alerts that were
  shown, or the error that the render threw.
\<close>

definition handleAiAutoFill ::
    "(jsstring \<Rightarrow> parsed option) \<Rightarrow> ai_response \<Rightarrow> app \<Rightarrow> (app \<times> jsstring list) outcome" where
  "handleAiAutoFill JSON_parse response st =
     (if trim (rawInput st) = [] then Returns (st, [])
      else
        (case response of
           Rejected \<Rightarrow> Returns (st\<lparr>isAiLoading := False\<rparr>, [autofill_alert])
         | Resolved text \<Rightarrow>
             (case text of
                None \<Rightarrow> Returns (st\<lparr>isAiLoading := False\<rparr>, [])
              | Some t \<Rightarrow>
                  if t = [] then Returns (st\<lparr>isAiLoading := False\<rparr>, [])
                  else
                    (case JSON_parse t of
                       None \<Rightarrow> Returns (st\<lparr>isAiLoading := False\<rparr>, [autofill_alert])
                     | Some Null \<Rightarrow> TypeError
                     | Some (Object extracted) \<Rightarrow>
                         and_then (setFormData (reconcile extracted) (formData st))
                           (\<lambda>next. Returns (st\<lparr>formData := next, isAiLoading := False\<rparr>, []))))))"

section \<open>Sending the order\<close>

definition nl :: jsstring where
  "nl = [0x0A]"

definition rupee :: jsstring where
  "rupee = [0x20B9]"

definition required_alert :: jsstring where
  "required_alert = lit ''Please fill all required fields (*)''"

text \<open>The message text that \<open>handleSend\<close> builds, one \<open>msg +=\<close> at a time.\<close>

definition message :: "form_data \<Rightarrow> jsstring \<Rightarrow> jsstring" where
  "message fd total_text =
     (let msg = [0xD83D, 0xDCE9] @ lit '' *SIM ORDER*'' @ nl @ nl;
          msg = msg @ [0xD83E, 0xDDD1] @ lit '' *Name:* '' @ name fd @ nl;
          msg = msg @ [0xD83D, 0xDCDE] @ lit '' *Mobile:* '' @ mobile fd @ nl @ nl;
          msg = msg @ [0xD83D, 0xDCCC] @ lit '' *Type:* '' @ type fd @ nl;
          msg = msg @ [0xD83D, 0xDCF6] @ lit '' *Network:* '' @ network fd @ nl;
          msg = msg @ [0xD83D, 0xDCB0] @ lit '' *Plan:* '' @ rupee @ plan fd @ nl;
          msg = msg @ [0xD83D, 0xDE9A] @ lit '' *Delivery:* '' @ rupee @
                  int_toString DELIVERY_CHARGE @ nl;
          msg = msg @ [0xD83D, 0xDCB5] @ lit '' *Total:* '' @ rupee @ total_text @ nl;
          msg = msg @ [0xD83D, 0xDCB3] @ lit '' *Payment:* '' @ paymentMethod fd @ nl;
          msg = (if paymentMethod fd = lit ''UPI'' \<and> transactionId fd \<noteq> []
                 then msg @ [0xD83C, 0xDD94] @ lit '' *Txn ID:* '' @ transactionId fd @ nl
                 else msg);
          msg = msg @ nl @ [0xD83C, 0xDFE0] @ lit '' *Address:* '' @ address fd @ nl;
          msg = (if locationLink fd \<noteq> []
                 then msg @ nl @ [0xD83D, 0xDCCD] @ lit '' *Location:* '' @ locationLink fd @ nl
                 else msg)
      in msg)"

datatype sent = Alert jsstring | WindowOpen jsstring

definition handleSend :: "form_data \<Rightarrow> sent outcome" where
  "handleSend fd =
     (if name fd = [] \<or> mobile fd = [] \<or> address fd = [] \<or> plan fd = []
      then Returns (Alert required_alert)
      else
        (case toString (getTotalPrice fd) of
           None \<Rightarrow> Beyond_exact_range
         | Some total_text \<Rightarrow>
             (case encodeURIComponent (message fd total_text) of
                None \<Rightarrow> URIError
              | Some text \<Rightarrow>
                  Returns (WindowOpen (lit ''https://wa.me/'' @ WHATSAPP_NUMBER @ lit ''?text='' @
                                       text)))))"

section \<open>The specification's wording, for comparison\<close>

text \<open>
  Section 4.2 of the specification reads the plan as a non-negative decimal integer, and
  lets anything else contribute 0.
\<close>

definition is_decimal_digit :: "code_unit \<Rightarrow> bool" where
  "is_decimal_digit c = (0x30 \<le> unat c \<and> unat c \<le> 0x39)"

fun decimal_value :: "jsstring \<Rightarrow> nat" where
  "decimal_value [] = 0"
| "decimal_value (c # cs) = (unat c - 0x30) * 10 ^ length cs + decimal_value cs"

definition computeTotal_spec :: "jsstring \<Rightarrow> int" where
  "computeTotal_spec selectedPlan =
     (if selectedPlan \<noteq> [] \<and> list_all is_decimal_digit selectedPlan
      then int (decimal_value selectedPlan) + 50 else 50)"

text \<open>What is left of a plan string once white space and a sign have been skipped.\<close>

definition after_sign :: "jsstring \<Rightarrow> jsstring" where
  "after_sign s =
     (case dropWhile is_white_space s of
        c # r \<Rightarrow> if c = 0x2B \<or> c = 0x2D then r else c # r
      | [] \<Rightarrow> [])"

definition no_leading_digit :: "jsstring \<Rightarrow> bool" where
  "no_leading_digit s = (case after_sign s of c # _ \<Rightarrow> \<not> is_decimal_digit c | [] \<Rightarrow> True)"

text \<open>
  Sections 3 and 4.1 of the specification: the catalog maps a request type and a network to
  the sequence of their plans, and a pair that is not populated has no plans.
\<close>

definition catalog :: "form_data \<Rightarrow> jsstring list" where
  "catalog d =
     (case map_of PLANS (type d) of
        None \<Rightarrow> []
      | Some byNetwork \<Rightarrow>
          (case map_of byNetwork (network d) of None \<Rightarrow> [] | Some plans \<Rightarrow> plans))"

text \<open>
  Section 4.3 of the specification percent-encodes each of the four parameters of the
  payment URI.
\<close>

definition buildPaymentUri_spec :: "jsstring \<Rightarrow> jsstring \<Rightarrow> jsstring \<Rightarrow> jsstring option" where
  "buildPaymentUri_spec merchantId merchantName amount =
     (case encodeURIComponent merchantId of
        None \<Rightarrow> None
      | Some pa \<Rightarrow>
     (case encodeURIComponent merchantName of
        None \<Rightarrow> None
      | Some pn \<Rightarrow>
     (case encodeURIComponent amount of
        None \<Rightarrow> None
      | Some am \<Rightarrow>
     (case encodeURIComponent (lit ''INR'') of
        None \<Rightarrow> None
      | Some cu \<Rightarrow>
          Some (lit ''upi://pay?pa='' @ pa @ lit ''&pn='' @ pn @ lit ''&am='' @ am @ lit ''&cu='' @
                cu)))))"

text \<open>
  Section 4.5 of the specification has the validator return the fields that are missing,
  the transaction reference among them when the payment method is UPI.
\<close>

datatype field = CustomerName | MobileNumber | Address | SelectedPlan | TransactionReference

definition missingFields_spec :: "form_data \<Rightarrow> field list" where
  "missingFields_spec d =
     (if name d = [] then [CustomerName] else []) @
     (if mobile d = [] then [MobileNumber] else []) @
     (if address d = [] then [Address] else []) @
     (if plan d = [] then [SelectedPlan] else []) @
     (if paymentMethod d = lit ''UPI'' \<and> transactionId d = [] then [TransactionReference]
      else [])"

text \<open>
  Section 4.4: the fields of the extraction that the reconciler recognizes, each with the
  field of the draft it fills.
\<close>

definition recognized_fields :: "(string \<times> (form_data \<Rightarrow> jsstring)) list" where
  "recognized_fields =
     [(''customerName'', name), (''mobileNumber'', mobile), (''requestType'', type),
      (''network'', network), (''planAmount'', plan), (''address'', address),
      (''paymentMethod'', paymentMethod), (''transactionId'', transactionId)]"

text \<open>
  Section 4.4 on failure: the call fails, or its reply has no text, or the text does not
  parse. \<open>extraction_threw\<close> are the failures among them that raise an exception in the
  handler.
\<close>

definition extraction_failed :: "(jsstring \<Rightarrow> parsed option) \<Rightarrow> ai_response \<Rightarrow> bool" where
  "extraction_failed JSON_parse response =
     (case response of
        Rejected \<Rightarrow> True
      | Resolved None \<Rightarrow> True
      | Resolved (Some t) \<Rightarrow> t = [] \<or> JSON_parse t = None)"

definition extraction_threw :: "(jsstring \<Rightarrow> parsed option) \<Rightarrow> ai_response \<Rightarrow> bool" where
  "extraction_threw JSON_parse response =
     (case response of
        Rejected \<Rightarrow> True
      | Resolved None \<Rightarrow> False
      | Resolved (Some t) \<Rightarrow> t \<noteq> [] \<and> JSON_parse t = None)"

text \<open>
  Section 4.6: the message as a sequence of lines in the order name, mobile, request type,
  network, plan, delivery charge, total, payment method, transaction reference, address,
  location link; the two optional sections are empty when they are left out.
\<close>

definition line :: "jsstring \<Rightarrow> jsstring \<Rightarrow> jsstring" where
  "line label text = label @ text @ nl"

definition format_spec :: "form_data \<Rightarrow> jsstring \<Rightarrow> jsstring" where
  "format_spec d total_text =
     concat
       [line [0xD83D, 0xDCE9] (lit '' *SIM ORDER*''), nl,
        line ([0xD83E, 0xDDD1] @ lit '' *Name:* '') (name d),
        line ([0xD83D, 0xDCDE] @ lit '' *Mobile:* '') (mobile d), nl,
        line ([0xD83D, 0xDCCC] @ lit '' *Type:* '') (type d),
        line ([0xD83D, 0xDCF6] @ lit '' *Network:* '') (network d),
        line ([0xD83D, 0xDCB0] @ lit '' *Plan:* '' @ rupee) (plan d),
        line ([0xD83D, 0xDE9A] @ lit '' *Delivery:* '' @ rupee) (lit ''50''),
        line ([0xD83D, 0xDCB5] @ lit '' *Total:* '' @ rupee) total_text,
        line ([0xD83D, 0xDCB3] @ lit '' *Payment:* '') (paymentMethod d),
        (if paymentMethod d = lit ''UPI'' \<and> transactionId d \<noteq> []
         then line ([0xD83C, 0xDD94] @ lit '' *Txn ID:* '') (transactionId d) else []),
        nl, line ([0xD83C, 0xDFE0] @ lit '' *Address:* '') (address d),
        (if locationLink d \<noteq> []
         then nl @ line ([0xD83D, 0xDCCD] @ lit '' *Location:* '') (locationLink d) else [])]"

section \<open>Sample states\<close>

text \<open>
  An order as section 8 of the specification walks through it: a new JIO connection on the
  349 plan, paid by UPI with a reference, and no location link.
\<close>

definition order_jio :: form_data where
  "order_jio =
     \<lparr>name = lit ''Asha'', mobile = lit ''9876543210'', type = lit ''NEW'',
      network = lit ''JIO'', plan = lit ''349'', address = lit ''12 Main Road'',
      locationLink = [], paymentMethod = lit ''UPI'', transactionId = lit ''UTR123456789''\<rparr>"

text \<open>An extraction whose three enumerated values are outside the vocabularies.\<close>

definition hallucinated :: extraction where
  "hallucinated =
     [''requestType'' \<mapsto> lit ''FOO'', ''network'' \<mapsto> lit ''BSNL'',
      ''paymentMethod'' \<mapsto> lit ''Cheque'']"

text \<open>The application after its first render, with a request typed into the auto-fill box.\<close>

definition app_typed :: app where
  "app_typed =
     \<lparr>formData = mounted, rawInput = lit ''John needs Jio New Sim 349 plan via UPI'',
      isAiLoading = False\<rparr>"

section \<open>Parsing decimal digits\<close>

lemma foldl_decimal:
  "list_all is_decimal_digit s \<Longrightarrow>
   foldl (\<lambda>acc c. case digit_value c of Some v \<Rightarrow> acc * 10 + v | None \<Rightarrow> acc) a s =
     a * 10 ^ length s + decimal_value s"
proof (induction s arbitrary: a)
  case Nil
  then show ?case by simp
next
  case (Cons c s)
  have dv: "digit_value c = Some (unat c - 0x30)"
    using Cons.prems by (simp add: is_decimal_digit_def digit_value_def)
  have "list_all is_decimal_digit s" using Cons.prems by simp
  from Cons.IH [OF this, of "a * 10 + (unat c - 0x30)"] show ?case
    by (simp add: dv add_mult_distrib mult.assoc)
qed

lemma radix_value_decimal:
  "list_all is_decimal_digit s \<Longrightarrow> radix_value 10 s = decimal_value s"
  by (simp add: radix_value_def foldl_decimal)

lemma digit_not_white_space: "is_decimal_digit c \<Longrightarrow> \<not> is_white_space c"
  by (auto simp: is_decimal_digit_def is_white_space_def Let_def)

lemma radix10_iff: "is_radix_digit 10 c = is_decimal_digit c"
  by (auto simp: is_decimal_digit_def is_radix_digit_def digit_value_def Let_def)

lemma takeWhile_all: "list_all P s \<Longrightarrow> takeWhile P s = s"
  by (induction s) auto

lemma parseInt_decimal:
  assumes "s \<noteq> []" "list_all is_decimal_digit s"
  shows "parseInt s = number_of_int (int (decimal_value s))"
proof -
  obtain c cs where s: "s = c # cs" using assms(1) by (cases s) auto
  have c: "is_decimal_digit c" and cs: "list_all is_decimal_digit cs" using assms(2) s by auto
  have dw: "dropWhile is_white_space s = s" using c s by (simp add: digit_not_white_space)
  have nsign: "c \<noteq> 0x2B" "c \<noteq> 0x2D" using c by (auto simp: is_decimal_digit_def)
  have nhex:
    "(case s of a # b # _ \<Rightarrow> a = 0x30 \<and> (b = 0x78 \<or> b = 0x58) | _ \<Rightarrow> False) = False"
    using cs s by (cases cs) (auto simp: is_decimal_digit_def)
  have tw: "takeWhile (is_radix_digit 10) s = s"
    using assms(2) by (intro takeWhile_all) (auto simp: list_all_iff radix10_iff)
  show ?thesis
    unfolding parseInt_def Let_def dw
    using nsign nhex tw assms(1) assms(2)
    by (simp add: s radix_value_decimal del: decimal_value.simps)
qed

lemma parseInt_no_digit:
  assumes "no_leading_digit s"
  shows "parseInt s = NaN"
proof (cases "dropWhile is_white_space s")
  case Nil
  show ?thesis unfolding parseInt_def Nil by simp
next
  case dw: (Cons c r)
  show ?thesis
  proof (cases "c = 0x2B \<or> c = 0x2D")
    case True
    then have as: "after_sign s = r" by (auto simp: after_sign_def dw)
    show ?thesis
    proof (cases r)
      case Nil
      show ?thesis unfolding parseInt_def dw Nil using True by auto
    next
      case (Cons a r')
      then have "\<not> is_decimal_digit a" using assms as by (simp add: no_leading_digit_def)
      then have "\<not> is_radix_digit 10 a" "a \<noteq> 0x30"
        by (auto simp: radix10_iff is_decimal_digit_def)
      then show ?thesis unfolding parseInt_def dw Cons using True
        by (auto split: list.splits)
    qed
  next
    case False
    then have as: "after_sign s = c # r" by (auto simp: after_sign_def dw)
    then have "\<not> is_decimal_digit c" using assms by (simp add: no_leading_digit_def)
    then have "\<not> is_radix_digit 10 c" "c \<noteq> 0x30"
      by (auto simp: radix10_iff is_decimal_digit_def)
    then show ?thesis unfolding parseInt_def dw using False
      by (auto split: list.splits)
  qed
qed

lemma parseInt_minus:
  assumes "s \<noteq> []" "list_all is_decimal_digit s"
  shows "parseInt (0x2D # s) = number_of_int (- int (decimal_value s))"
proof -
  obtain c cs where s: "s = c # cs" using assms(1) by (cases s) auto
  have cs: "list_all is_decimal_digit cs" using assms(2) s by auto
  have dw: "dropWhile is_white_space (0x2D # s) = 0x2D # s"
    by (simp add: is_white_space_def)
  have nhex:
    "(case s of a # b # _ \<Rightarrow> a = 0x30 \<and> (b = 0x78 \<or> b = 0x58) | _ \<Rightarrow> False) = False"
    using cs s by (cases cs) (auto simp: is_decimal_digit_def)
  have tw: "takeWhile (is_radix_digit 10) s = s"
    using assms(2) by (intro takeWhile_all) (auto simp: list_all_iff radix10_iff)
  show ?thesis
    unfolding parseInt_def Let_def dw
    by (simp add: nhex tw assms(1) radix_value_decimal [OF assms(2)] del: decimal_value.simps)
qed

section \<open>The total price\<close>

text \<open>
  C7, as the code has it. For a plan that is a non-empty string of decimal digits (with
  the sum inside the exact range of a Number) the total is the plan's value plus the
  delivery charge of 50. For a plan that is a minus sign followed by such digits the sign
  is honoured: the total is 50 minus the value, so the plan is not restricted to
  non-negative amounts and the total can be below the delivery charge. For a plan that is
  empty, or that has no decimal digit after optional leading white space and one optional
  sign, the total is exactly 50. Nothing is raised in any of the cases.
\<close>

theorem getTotalPrice_plan:
  "(plan d \<noteq> [] \<and> list_all is_decimal_digit (plan d) \<and>
    int (decimal_value (plan d)) + 50 \<le> 2 ^ 53
      \<longrightarrow> getTotalPrice d = Num (int (decimal_value (plan d)) + 50)) \<and>
   (plan d = 0x2D # s \<and> s \<noteq> [] \<and> list_all is_decimal_digit s \<and>
    int (decimal_value s) \<le> 2 ^ 53
      \<longrightarrow> getTotalPrice d = Num (50 - int (decimal_value s))) \<and>
   (no_leading_digit (plan d) \<longrightarrow> getTotalPrice d = Num 50)"
proof (intro conjI impI)
  assume a: "plan d \<noteq> [] \<and> list_all is_decimal_digit (plan d) \<and>
    int (decimal_value (plan d)) + 50 \<le> 2 ^ 53"
  then have "parseInt (plan d) = Num (int (decimal_value (plan d)))"
    by (simp add: parseInt_decimal number_of_int_def)
  then show "getTotalPrice d = Num (int (decimal_value (plan d)) + 50)"
    using a by (simp add: getTotalPrice_def plus_number_def number_of_int_def DELIVERY_CHARGE_def)
next
  assume a: "plan d = 0x2D # s \<and> s \<noteq> [] \<and> list_all is_decimal_digit s \<and>
    int (decimal_value s) \<le> 2 ^ 53"
  then have "parseInt (plan d) = Num (- int (decimal_value s))"
    by (simp add: parseInt_minus number_of_int_def)
  moreover have "\<bar>50 - int (decimal_value s)\<bar> \<le> 2 ^ 53"
    using a by (simp add: abs_le_iff)
  ultimately show "getTotalPrice d = Num (50 - int (decimal_value s))"
    by (simp add: getTotalPrice_def plus_number_def number_of_int_def DELIVERY_CHARGE_def)
next
  assume "no_leading_digit (plan d)"
  then have "parseInt (plan d) = NaN" by (rule parseInt_no_digit)
  then show "getTotalPrice d = Num 50"
    by (simp add: getTotalPrice_def plus_number_def number_of_int_def DELIVERY_CHARGE_def)
qed

theorem getTotalPrice_plan_witness:
  "getTotalPrice (initialFormData\<lparr>plan := lit ''349''\<rparr>) = Num 399 \<and>
   getTotalPrice (initialFormData\<lparr>plan := lit ''-349''\<rparr>) = Num (- 299) \<and>
   getTotalPrice (initialFormData\<lparr>plan := []\<rparr>) = Num 50 \<and>
   getTotalPrice (initialFormData\<lparr>plan := lit ''abc''\<rparr>) = Num 50"
  using getTotalPrice_plan [of "initialFormData\<lparr>plan := lit ''349''\<rparr>"]
    getTotalPrice_plan [of "initialFormData\<lparr>plan := lit ''-349''\<rparr>" "lit ''349''"]
    getTotalPrice_plan [of "initialFormData\<lparr>plan := []\<rparr>"]
    getTotalPrice_plan [of "initialFormData\<lparr>plan := lit ''abc''\<rparr>"]
  by (simp add: lit_def is_decimal_digit_def no_leading_digit_def after_sign_def
      is_white_space_def)

text \<open>
  C7 as the specification words it fails on a plan with a minus sign: \<open>parseInt\<close> reads
  the sign, so the plan \<open>-5\<close> contributes -5 and the total is 45, below the delivery
  charge, where the specification's reading gives 50.
\<close>

theorem getTotalPrice_negative_plan:
  "getTotalPrice (initialFormData\<lparr>plan := lit ''-5''\<rparr>) = Num 45 \<and>
   computeTotal_spec (lit ''-5'') = 50"
  by (simp add: getTotalPrice_def parseInt_def lit_def is_white_space_def is_radix_digit_def
      digit_value_def radix_value_def number_of_int_def plus_number_def DELIVERY_CHARGE_def
      computeTotal_spec_def is_decimal_digit_def)


section \<open>Percent-encoding and the QR request\<close>

lemma encode_append:
  "list_all (\<lambda>c. \<not> is_surrogate c) a \<Longrightarrow>
   encodeURIComponent (a @ b) =
     map_option ((@) (concat (map escape_unit a))) (encodeURIComponent b)"
proof (induction a)
  case Nil
  then show ?case by (simp add: option.map_ident)
next
  case (Cons c a)
  then show ?case
    by (cases "encodeURIComponent b") (auto simp: escape_unit_def is_surrogate_def)
qed

lemma unat_digit: "unat (of_nat (0x30 + k) :: code_unit) = 0x30 + k" if "k < 10"
proof -
  have "unat (of_nat (0x30 + k) :: code_unit) = (0x30 + k) mod 2 ^ 16"
    by (simp only: unat_of_nat len_of_numeral_defs) simp
  then show ?thesis using that by simp
qed

lemma decimal_digit_of_nat: "k < 10 \<Longrightarrow> is_decimal_digit (of_nat (0x30 + k))"
  unfolding is_decimal_digit_def by (simp only: unat_digit) simp

lemma digits_decimal: "list_all is_decimal_digit (digits n)"
proof (induction n rule: digits.induct)
  case (1 n)
  show ?case
  proof (cases "n < 10")
    case True
    then show ?thesis
      by (subst digits.simps) (simp add: decimal_digit_of_nat del: of_nat_add of_nat_numeral)
  next
    case False
    have "n mod 10 < 10" by simp
    then have "is_decimal_digit (of_nat (0x30 + n mod 10))" by (rule decimal_digit_of_nat)
    then show ?thesis using 1 False
      by (subst digits.simps) (simp del: of_nat_add of_nat_numeral)
  qed
qed

lemma decimal_plain: "is_decimal_digit c \<Longrightarrow> \<not> is_surrogate c \<and> escape_unit c = [c]"
  by (auto simp: is_decimal_digit_def is_surrogate_def is_high_surrogate_def
      is_low_surrogate_def escape_unit_def is_unescaped_def Let_def)

lemma escape_decimal: "list_all is_decimal_digit s \<Longrightarrow> concat (map escape_unit s) = s"
  by (induction s) (auto simp: decimal_plain)

lemma escape_digits: "concat (map escape_unit (digits n)) = digits n"
  by (simp add: escape_decimal digits_decimal)

lemma escape_upi_prefix:
  "concat (map escape_unit (lit ''upi://pay?pa=sakthi000505@okhdfcbank&pn=SAKTHI&am='')) =
     lit ''upi%3A%2F%2Fpay%3Fpa%3Dsakthi000505%40okhdfcbank%26pn%3DSAKTHI%26am%3D''"
  by (simp add: lit_def escape_unit_def is_unescaped_def escape_def utf8_def percent_octet_def
      hex_digit_def)

lemma upi_prefix_plain:
  "list_all (\<lambda>c. \<not> is_surrogate c)
     (lit ''upi://pay?pa=sakthi000505@okhdfcbank&pn=SAKTHI&am='')"
  by (simp add: lit_def is_surrogate_def is_high_surrogate_def is_low_surrogate_def)

lemma encode_MERCHANT_NAME: "encodeURIComponent MERCHANT_NAME = Some (lit ''SAKTHI'')"
  by (simp add: MERCHANT_NAME_def lit_def is_unescaped_def)

lemma encode_MERCHANT_UPI:
  "encodeURIComponent MERCHANT_UPI = Some (lit ''sakthi000505%40okhdfcbank'')"
  by (simp add: MERCHANT_UPI_def lit_def is_unescaped_def escape_def utf8_def percent_octet_def
      hex_digit_def is_high_surrogate_def is_low_surrogate_def)

lemma upiLink_text:
  "upiLink a =
     Some (lit ''upi://pay?pa=sakthi000505@okhdfcbank&pn=SAKTHI&am='' @ a @ lit ''&cu=INR'')"
  by (simp add: upiLink_def MERCHANT_NAME_def MERCHANT_UPI_def lit_def is_unescaped_def)

lemma encode_cu: "encodeURIComponent (lit ''&cu=INR'') = Some (lit ''%26cu%3DINR'')"
  by (simp add: lit_def is_unescaped_def escape_def utf8_def percent_octet_def hex_digit_def
      is_high_surrogate_def is_low_surrogate_def)

lemma encode_upiLink:
  "encodeURIComponent
     (lit ''upi://pay?pa=sakthi000505@okhdfcbank&pn=SAKTHI&am='' @ digits n @ lit ''&cu=INR'') =
   Some (lit ''upi%3A%2F%2Fpay%3Fpa%3Dsakthi000505%40okhdfcbank%26pn%3DSAKTHI%26am%3D'' @
         digits n @ lit ''%26cu%3DINR'')"
proof -
  have d: "list_all (\<lambda>c. \<not> is_surrogate c) (digits n)"
    using digits_decimal [of n] by (auto simp: list_all_iff decimal_plain)
  show ?thesis
    by (simp only: encode_append [OF upi_prefix_plain] encode_append [OF d] escape_upi_prefix
        encode_cu escape_digits) simp
qed

lemma getQrCodeUrl_positive:
  assumes "getTotalPrice d = Num n" "0 < n"
  shows "getQrCodeUrl d =
           Returns (lit ''https://api.qrserver.com/v1/create-qr-code/?size=200x200&data='' @
                    lit ''upi%3A%2F%2Fpay%3Fpa%3Dsakthi000505%40okhdfcbank%26pn%3DSAKTHI%26am%3D'' @
                    digits (nat n) @ lit ''%26cu%3DINR'')"
  using assms
  by (simp add: getQrCodeUrl_def toString_def int_toString_def le_zero_def upiLink_text
      encode_upiLink)

text \<open>
  C3, as the code has it. For every positive total, the payment URI has the four
  parameters \<open>pa\<close>, \<open>pn\<close>, \<open>am\<close>, \<open>cu\<close> in this order. Only the payee name goes through
  \<open>encodeURIComponent\<close>; the payee address, the amount and the currency code are put in
  as they are, so the \<open>@\<close> of the address is still there. The QR request is the fixed
  endpoint with \<open>size=200x200\<close> and, as \<open>data\<close>, the percent-encoding of the whole
  payment URI.
\<close>

theorem qr_url:
  "getTotalPrice d = Num n \<and> 0 < n \<longrightarrow>
     upiLink (int_toString n) =
       Some (lit ''upi://pay?pa=sakthi000505@okhdfcbank&pn=SAKTHI&am='' @ digits (nat n) @
             lit ''&cu=INR'') \<and>
     getQrCodeUrl d =
       Returns (lit ''https://api.qrserver.com/v1/create-qr-code/?size=200x200&data='' @
                lit ''upi%3A%2F%2Fpay%3Fpa%3Dsakthi000505%40okhdfcbank%26pn%3DSAKTHI%26am%3D'' @
                digits (nat n) @ lit ''%26cu%3DINR'')"
  by (simp add: getQrCodeUrl_positive upiLink_text int_toString_def)

lemma digits_399: "digits 399 = lit ''399''"
  by (simp add: digits.simps lit_def)

lemma total_349: "getTotalPrice (initialFormData\<lparr>plan := lit ''349''\<rparr>) = Num 399"
  by (simp add: getTotalPrice_def parseInt_def lit_def is_white_space_def is_radix_digit_def
      digit_value_def radix_value_def number_of_int_def plus_number_def DELIVERY_CHARGE_def)

theorem qr_url_witness:
  "getQrCodeUrl (initialFormData\<lparr>plan := lit ''349''\<rparr>) =
     Returns (lit ''https://api.qrserver.com/v1/create-qr-code/?size=200x200&data='' @
              lit ''upi%3A%2F%2Fpay%3Fpa%3Dsakthi000505%40okhdfcbank%26pn%3DSAKTHI'' @
              lit ''%26am%3D399%26cu%3DINR'')"
  using qr_url [of "initialFormData\<lparr>plan := lit ''349''\<rparr>" 399]
  by (simp add: total_349 digits_399) (simp add: lit_def)

text \<open>
  C3 as the specification words it fails on the payee address: for the total 399 the
  code's payment URI keeps \<open>sakthi000505@okhdfcbank\<close>, where encoding each parameter
  gives \<open>sakthi000505%40okhdfcbank\<close>.
\<close>

theorem payee_address_not_encoded:
  "upiLink (lit ''399'') =
     Some (lit ''upi://pay?pa=sakthi000505@okhdfcbank&pn=SAKTHI&am=399&cu=INR'') \<and>
   buildPaymentUri_spec MERCHANT_UPI MERCHANT_NAME (lit ''399'') =
     Some (lit ''upi://pay?pa=sakthi000505%40okhdfcbank&pn=SAKTHI&am=399&cu=INR'') \<and>
   upiLink (lit ''399'') \<noteq> buildPaymentUri_spec MERCHANT_UPI MERCHANT_NAME (lit ''399'')"
  by (simp add: upiLink_text buildPaymentUri_spec_def encode_MERCHANT_UPI encode_MERCHANT_NAME)
     (simp add: lit_def is_unescaped_def)

section \<open>The plan stays in the catalog\<close>

lemma vocabulary_not_inherited:
  "k \<in> set requestType_enum \<or> k \<in> set network_enum \<Longrightarrow> k \<notin> set inherited_names"
  by (auto simp: requestType_enum_def network_enum_def inherited_names_def object_prototype_def
      lit_def)

lemma not_inherited: "k \<notin> set inherited_names \<Longrightarrow> map_of object_prototype k = None"
  by (simp add: inherited_names_def map_of_eq_None_iff)

lemma getAvailablePlans_table:
  assumes "type d \<notin> set inherited_names" "network d \<notin> set inherited_names"
  shows "getAvailablePlans d = Plan_list (catalog d)"
  using assms
  by (simp add: getAvailablePlans_def catalog_def not_inherited split: option.splits)

lemma getAvailablePlans_plan_update: "getAvailablePlans (d\<lparr>plan := p\<rparr>) = getAvailablePlans d"
  by (simp add: getAvailablePlans_def split: option.splits)

lemma planEffect_table:
  assumes "getAvailablePlans d = Plan_list ps"
  shows "planEffect d =
           Returns (d\<lparr>plan := (if plan d \<in> set ps then plan d
                               else case ps of [] \<Rightarrow> [] | p # _ \<Rightarrow> p)\<rparr>)"
  using assms by (cases ps) (auto simp: planEffect_def)

text \<open>
  C4. For every request type and network of the two vocabularies, the list that the
  effect reads is the catalog list of the pair. The effect leaves a plan that is in the
  list as it is; otherwise it selects the first plan of the list, in the order of
  declaration, when the list is not empty, and the empty plan when it is. Afterwards the
  plan is in the list, or empty when the list is, and running the effect a second time
  changes nothing.
\<close>

theorem planEffect_resolves:
  assumes "type d \<in> set requestType_enum" "network d \<in> set network_enum"
  shows "\<exists>d'. getAvailablePlans d = Plan_list (catalog d) \<and>
           planEffect d = Returns d' \<and>
           d' = d\<lparr>plan := (if plan d \<in> set (catalog d) then plan d
                            else case catalog d of [] \<Rightarrow> [] | p # _ \<Rightarrow> p)\<rparr> \<and>
           (plan d' \<in> set (catalog d) \<or> catalog d = [] \<and> plan d' = []) \<and>
           planEffect d' = Returns d'"
proof -
  let ?d' = "d\<lparr>plan := (if plan d \<in> set (catalog d) then plan d
                          else case catalog d of [] \<Rightarrow> [] | p # _ \<Rightarrow> p)\<rparr>"
  have table: "getAvailablePlans d = Plan_list (catalog d)"
    using assms by (intro getAvailablePlans_table vocabulary_not_inherited) auto
  then have table': "getAvailablePlans ?d' = Plan_list (catalog d)"
    by (simp add: getAvailablePlans_plan_update)
  have first: "planEffect d = Returns ?d'"
    by (rule planEffect_table [OF table])
  have inv: "plan ?d' \<in> set (catalog d) \<or> catalog d = [] \<and> plan ?d' = []"
    by (cases "catalog d") auto
  have again: "planEffect ?d' = Returns ?d'"
    using inv by (subst planEffect_table [OF table']) (cases "catalog d", auto)
  from table first inv again show ?thesis by blast
qed

theorem planEffect_resolves_witness:
  "planEffect (initialFormData\<lparr>network := lit ''JIO'', plan := lit ''249''\<rparr>) =
     Returns (initialFormData\<lparr>network := lit ''JIO'', plan := lit ''349''\<rparr>) \<and>
   lit ''349'' \<in> set (catalog (initialFormData\<lparr>network := lit ''JIO'', plan := lit ''249''\<rparr>)) \<and>
   planEffect (initialFormData\<lparr>network := lit ''JIO'', plan := lit ''349''\<rparr>) =
     Returns (initialFormData\<lparr>network := lit ''JIO'', plan := lit ''349''\<rparr>)"
proof -
  let ?d = "initialFormData\<lparr>network := lit ''JIO'', plan := lit ''249''\<rparr>"
  have t: "type ?d \<in> set requestType_enum"
    by (simp add: initialFormData_def requestType_enum_def)
  have n: "network ?d \<in> set network_enum"
    by (simp add: network_enum_def)
  have c: "catalog ?d = [lit ''349'']"
    by (simp add: catalog_def PLANS_def initialFormData_def lit_def)
  have ne: "lit ''249'' \<noteq> lit ''349''"
    by (simp add: lit_def)
  from planEffect_resolves [OF t n] show ?thesis
    by (auto simp: c ne)
qed

text \<open>Every plan of the catalog is one of five prices, and each gives an exact total.\<close>

lemma catalog_prices:
  "p \<in> set (catalog d) \<Longrightarrow>
   p = lit ''249'' \<or> p = lit ''349'' \<or> p = lit ''199'' \<or> p = lit ''299'' \<or> p = lit ''200''"
  by (auto simp: catalog_def PLANS_def split: option.splits if_splits)

lemma total_of_plan:
  "plan d = lit ''249'' \<Longrightarrow> getTotalPrice d = Num 299"
  "plan d = lit ''349'' \<Longrightarrow> getTotalPrice d = Num 399"
  "plan d = lit ''199'' \<Longrightarrow> getTotalPrice d = Num 249"
  "plan d = lit ''299'' \<Longrightarrow> getTotalPrice d = Num 349"
  "plan d = lit ''200'' \<Longrightarrow> getTotalPrice d = Num 250"
  "plan d = [] \<Longrightarrow> getTotalPrice d = Num 50"
  by (simp_all add: getTotalPrice_def parseInt_def lit_def is_white_space_def is_radix_digit_def
      digit_value_def radix_value_def number_of_int_def plus_number_def DELIVERY_CHARGE_def)

text \<open>
  C10. When the plan is in the catalog list of the current request type and network, or
  empty, the total is at least the delivery charge of 50, so it is positive, the test
  \<open>amount <= 0\<close> of \<open>getQrCodeUrl\<close> fails, and a QR request that is not the empty string
  is returned, also when no plan is selected.
\<close>

theorem qr_always_produced:
  assumes "plan d \<in> set (catalog d) \<or> plan d = []"
  shows "\<exists>n url. getTotalPrice d = Num n \<and> DELIVERY_CHARGE \<le> n \<and> 0 < n \<and>
           \<not> le_zero (getTotalPrice d) \<and> getQrCodeUrl d = Returns url \<and> url \<noteq> []"
proof -
  from assms catalog_prices [of "plan d" d]
  have "plan d = lit ''249'' \<or> plan d = lit ''349'' \<or> plan d = lit ''199'' \<or>
        plan d = lit ''299'' \<or> plan d = lit ''200'' \<or> plan d = []" by blast
  then obtain n where n: "getTotalPrice d = Num n" "50 \<le> n"
    using total_of_plan [of d] by fastforce
  then have pos: "0 < n" by simp
  from getQrCodeUrl_positive [OF n(1) pos] n pos show ?thesis
    by (simp add: DELIVERY_CHARGE_def le_zero_def lit_def)
qed

theorem qr_always_produced_witness:
  "(plan initialFormData \<in> set (catalog initialFormData) \<or> plan initialFormData = []) \<and>
   (plan order_jio \<in> set (catalog order_jio) \<or> plan order_jio = []) \<and>
   (\<exists>n url. getTotalPrice initialFormData = Num n \<and> DELIVERY_CHARGE \<le> n \<and> 0 < n \<and>
      \<not> le_zero (getTotalPrice initialFormData) \<and>
      getQrCodeUrl initialFormData = Returns url \<and> url \<noteq> []) \<and>
   (\<exists>n url. getTotalPrice order_jio = Num n \<and> DELIVERY_CHARGE \<le> n \<and> 0 < n \<and>
      \<not> le_zero (getTotalPrice order_jio) \<and>
      getQrCodeUrl order_jio = Returns url \<and> url \<noteq> [])"
proof -
  have a: "plan initialFormData \<in> set (catalog initialFormData) \<or> plan initialFormData = []"
    by (simp add: initialFormData_def)
  have b: "plan order_jio \<in> set (catalog order_jio) \<or> plan order_jio = []"
    by (simp add: order_jio_def catalog_def PLANS_def lit_def)
  from a b qr_always_produced [OF a] qr_always_produced [OF b] show ?thesis by blast
qed

section \<open>Merging the extraction into the form\<close>

text \<open>
  C6. The merge goes field by field: for each of the eight fields the reconciler
  recognizes, a value of the extraction that is present and not empty replaces the value
  of the draft, and a value that is absent or empty leaves the draft's value as it is.
  The location link, which the extraction does not have, is never touched.
\<close>

theorem reconcile_fill_if_present:
  "(\<forall>(key, field) \<in> set recognized_fields.
      field (reconcile e d) =
        (case e key of None \<Rightarrow> field d | Some v \<Rightarrow> if v = [] then field d else v)) \<and>
   locationLink (reconcile e d) = locationLink d"
  by (simp add: recognized_fields_def reconcile_def split: option.splits)

theorem reconcile_fill_if_present_witness:
  "address (reconcile [''address'' \<mapsto> [], ''customerName'' \<mapsto> lit ''X'']
      (initialFormData\<lparr>address := lit ''Y'', name := lit ''Z''\<rparr>)) = lit ''Y'' \<and>
   name (reconcile [''address'' \<mapsto> [], ''customerName'' \<mapsto> lit ''X'']
      (initialFormData\<lparr>address := lit ''Y'', name := lit ''Z''\<rparr>)) = lit ''X'' \<and>
   mobile (reconcile [''address'' \<mapsto> [], ''customerName'' \<mapsto> lit ''X'']
      (initialFormData\<lparr>address := lit ''Y'', name := lit ''Z''\<rparr>)) = []"
  using reconcile_fill_if_present [of "[''address'' \<mapsto> [], ''customerName'' \<mapsto> lit ''X'']"
      "initialFormData\<lparr>address := lit ''Y'', name := lit ''Z''\<rparr>"]
  by (simp add: recognized_fields_def initialFormData_def lit_def)

text \<open>What the state update and the render after it give when the lookup stays in the table.\<close>

lemma setFormData_table:
  assumes "type (update prev) \<notin> set inherited_names"
    and "network (update prev) \<notin> set inherited_names"
  shows "setFormData update prev =
           Returns
             (let merged = update prev
              in if type merged = type prev \<and> network merged = network prev then merged
                 else merged\<lparr>plan := (if plan merged \<in> set (catalog merged) then plan merged
                                       else case catalog merged of [] \<Rightarrow> [] | p # _ \<Rightarrow> p)\<rparr>)"
proof -
  have table: "getAvailablePlans (update prev) = Plan_list (catalog (update prev))"
    using assms by (rule getAvailablePlans_table)
  show ?thesis
    by (simp add: setFormData_def Let_def render_def table planEffect_table [OF table])
qed

lemma mounted_plan: "mounted = initialFormData\<lparr>plan := lit ''249''\<rparr>"
  by (simp add: mounted_def planEffect_def getAvailablePlans_def PLANS_def initialFormData_def
      lit_def)

lemma app_typed_not_blank: "trim (rawInput app_typed) \<noteq> []"
  by (simp add: app_typed_def trim_def is_white_space_def lit_def)

text \<open>
  C2, as the code has it. The values of \<open>requestType\<close>, \<open>network\<close> and
  \<open>paymentMethod\<close> are merged like every other field: a value that is present and not
  empty replaces the draft's value, whether or not it belongs to the vocabulary. For a
  reply that parses to an object the handler never shows an alert; and when the merged
  request type and network are not names that the plan table inherits from
  \<open>Object.prototype\<close>, nothing is thrown: the handler ends with the merged draft, whose
  plan the effect has set again from the catalog if the request type or the network
  changed.
\<close>

theorem reconcile_enum_unchecked:
  "(e ''requestType'' = Some t \<and> t \<noteq> [] \<longrightarrow> type (reconcile e d) = t) \<and>
   (e ''network'' = Some n \<and> n \<noteq> [] \<longrightarrow> network (reconcile e d) = n) \<and>
   (e ''paymentMethod'' = Some p \<and> p \<noteq> [] \<longrightarrow> paymentMethod (reconcile e d) = p) \<and>
   (txt \<noteq> [] \<and> JSON_parse txt = Some (Object e) \<and>
    handleAiAutoFill JSON_parse (Resolved (Some txt)) st = Returns (st', alerts)
      \<longrightarrow> alerts = []) \<and>
   (trim (rawInput st) \<noteq> [] \<and> txt \<noteq> [] \<and> JSON_parse txt = Some (Object e) \<and>
    type (reconcile e (formData st)) \<notin> set inherited_names \<and>
    network (reconcile e (formData st)) \<notin> set inherited_names
      \<longrightarrow> handleAiAutoFill JSON_parse (Resolved (Some txt)) st =
            Returns
              (st\<lparr>formData :=
                    (let merged = reconcile e (formData st)
                     in if type merged = type (formData st) \<and>
                           network merged = network (formData st)
                        then merged
                        else merged\<lparr>plan := (if plan merged \<in> set (catalog merged)
                                              then plan merged
                                              else case catalog merged of
                                                     [] \<Rightarrow> [] | p # _ \<Rightarrow> p)\<rparr>),
                  isAiLoading := False\<rparr>, []))"
proof (intro conjI impI)
  assume "e ''requestType'' = Some t \<and> t \<noteq> []"
  then show "type (reconcile e d) = t" by (simp add: reconcile_def)
next
  assume "e ''network'' = Some n \<and> n \<noteq> []"
  then show "network (reconcile e d) = n" by (simp add: reconcile_def)
next
  assume "e ''paymentMethod'' = Some p \<and> p \<noteq> []"
  then show "paymentMethod (reconcile e d) = p" by (simp add: reconcile_def)
next
  assume "txt \<noteq> [] \<and> JSON_parse txt = Some (Object e) \<and>
    handleAiAutoFill JSON_parse (Resolved (Some txt)) st = Returns (st', alerts)"
  then show "alerts = []"
    by (cases "setFormData (reconcile e) (formData st)")
      (auto simp: handleAiAutoFill_def split: if_splits)
next
  assume a: "trim (rawInput st) \<noteq> [] \<and> txt \<noteq> [] \<and> JSON_parse txt = Some (Object e) \<and>
    type (reconcile e (formData st)) \<notin> set inherited_names \<and>
    network (reconcile e (formData st)) \<notin> set inherited_names"
  then have "type (reconcile e (formData st)) \<notin> set inherited_names"
    and "network (reconcile e (formData st)) \<notin> set inherited_names" by simp_all
  from setFormData_table [of "reconcile e" "formData st", OF this] a
  show "handleAiAutoFill JSON_parse (Resolved (Some txt)) st =
            Returns
              (st\<lparr>formData :=
                    (let merged = reconcile e (formData st)
                     in if type merged = type (formData st) \<and>
                           network merged = network (formData st)
                        then merged
                        else merged\<lparr>plan := (if plan merged \<in> set (catalog merged)
                                              then plan merged
                                              else case catalog merged of
                                                     [] \<Rightarrow> [] | p # _ \<Rightarrow> p)\<rparr>),
                  isAiLoading := False\<rparr>, [])"
    by (simp add: handleAiAutoFill_def)
qed

theorem reconcile_enum_unchecked_witness:
  "lit ''BSNL'' \<notin> set network_enum \<and> lit ''Cheque'' \<notin> set paymentMethod_enum \<and>
   type (reconcile hallucinated initialFormData) = lit ''FOO'' \<and>
   network (reconcile hallucinated initialFormData) = lit ''BSNL'' \<and>
   paymentMethod (reconcile hallucinated initialFormData) = lit ''Cheque'' \<and>
   handleAiAutoFill (\<lambda>_. Some (Object hallucinated)) (Resolved (Some (lit ''{}''))) app_typed =
     Returns
       (app_typed
          \<lparr>formData :=
             initialFormData
               \<lparr>type := lit ''FOO'', network := lit ''BSNL'', paymentMethod := lit ''Cheque''\<rparr>\<rparr>,
        [])"
proof -
  have merged: "reconcile hallucinated (formData app_typed) =
      initialFormData\<lparr>type := lit ''FOO'', network := lit ''BSNL'', plan := lit ''249'',
        paymentMethod := lit ''Cheque''\<rparr>"
    by (simp add: reconcile_def hallucinated_def app_typed_def mounted_plan initialFormData_def
        lit_def)
  have names: "lit ''FOO'' \<notin> set inherited_names" "lit ''BSNL'' \<notin> set inherited_names"
    by (simp_all add: inherited_names_def object_prototype_def lit_def)
  have empty: "catalog (initialFormData\<lparr>type := lit ''FOO'', network := lit ''BSNL'',
      plan := lit ''249'', paymentMethod := lit ''Cheque''\<rparr>) = []"
    by (simp add: catalog_def PLANS_def lit_def)
  have before: "type (formData app_typed) = lit ''NEW''"
    by (simp add: app_typed_def mounted_plan initialFormData_def)
  have changed: "lit ''FOO'' \<noteq> lit ''NEW''"
    by (simp add: lit_def)
  have vocabulary: "lit ''BSNL'' \<notin> set network_enum" "lit ''Cheque'' \<notin> set paymentMethod_enum"
    by (simp_all add: network_enum_def paymentMethod_enum_def lit_def)
  have fields: "type (reconcile hallucinated initialFormData) = lit ''FOO''"
    "network (reconcile hallucinated initialFormData) = lit ''BSNL''"
    "paymentMethod (reconcile hallucinated initialFormData) = lit ''Cheque''"
    by (simp_all add: reconcile_def hallucinated_def lit_def)
  have prem: "trim (rawInput app_typed) \<noteq> [] \<and> lit ''{}'' \<noteq> [] \<and>
      (\<lambda>_. Some (Object hallucinated)) (lit ''{}'') = Some (Object hallucinated) \<and>
      type (reconcile hallucinated (formData app_typed)) \<notin> set inherited_names \<and>
      network (reconcile hallucinated (formData app_typed)) \<notin> set inherited_names"
    by (simp add: app_typed_not_blank merged names) (simp add: lit_def)
  note step =
    reconcile_enum_unchecked [of hallucinated _ _ _ _ "lit ''{}''"
      "\<lambda>_. Some (Object hallucinated)" app_typed,
      THEN conjunct2, THEN conjunct2, THEN conjunct2, THEN conjunct2, THEN mp, OF prem]
  have "handleAiAutoFill (\<lambda>_. Some (Object hallucinated)) (Resolved (Some (lit ''{}''))) app_typed =
     Returns
       (app_typed
          \<lparr>formData :=
             initialFormData
               \<lparr>type := lit ''FOO'', network := lit ''BSNL'', paymentMethod := lit ''Cheque''\<rparr>\<rparr>,
        [])"
    unfolding step
    by (simp add: Let_def merged empty before changed)
      (simp add: app_typed_def initialFormData_def)
  with vocabulary fields show ?thesis by simp
qed

text \<open>
  C2 as the specification words it fails twice. \<open>FOO\<close> is no request type of the
  vocabulary, and merging it changes the request type of the draft from \<open>NEW\<close> to
  \<open>FOO\<close>. And \<open>constructor\<close> is no network of the vocabulary, and merging it ends in
  a \<open>TypeError\<close>: the plan lookup reads the method that every object inherits under
  that name, and the render calls \<open>map\<close> on it.
\<close>

theorem reconcile_out_of_vocabulary:
  "lit ''FOO'' \<notin> set requestType_enum \<and>
   type initialFormData = lit ''NEW'' \<and>
   type (reconcile [''requestType'' \<mapsto> lit ''FOO''] initialFormData) = lit ''FOO'' \<and>
   lit ''constructor'' \<notin> set network_enum \<and>
   handleAiAutoFill (\<lambda>_. Some (Object [''network'' \<mapsto> lit ''constructor'']))
     (Resolved (Some (lit ''{}''))) app_typed = TypeError"
proof -
  have "getAvailablePlans (reconcile [''network'' \<mapsto> lit ''constructor''] mounted) =
      Builtin_function 1"
    by (simp add: getAvailablePlans_def reconcile_def mounted_plan initialFormData_def PLANS_def
        object_prototype_def lit_def)
  then have "handleAiAutoFill (\<lambda>_. Some (Object [''network'' \<mapsto> lit ''constructor'']))
     (Resolved (Some (lit ''{}''))) app_typed = TypeError"
    using app_typed_not_blank
    by (simp add: handleAiAutoFill_def setFormData_def render_def app_typed_def lit_def)
  then show ?thesis
    by (simp add: reconcile_def initialFormData_def requestType_enum_def network_enum_def lit_def)
qed

text \<open>
  C5. There is a state whose plan is in the catalog list of its request type and network,
  and an extraction with that request type and network whose plan amount is not empty and
  not in the list, such that the auto-fill replaces the plan of the draft by that amount
  and changes nothing else of the draft: the request type and the network did not change,
  so the effect did not run, and the plan stays outside the catalog until the effect runs
  again.
\<close>

theorem extracted_plan_outside_catalog:
  "\<exists>st e p st'.
      getAvailablePlans (formData st) = Plan_list (catalog (formData st)) \<and>
      plan (formData st) \<in> set (catalog (formData st)) \<and>
      e ''requestType'' = Some (type (formData st)) \<and>
      e ''network'' = Some (network (formData st)) \<and>
      e ''planAmount'' = Some p \<and> p \<noteq> [] \<and>
      p \<notin> set (catalog (formData st)) \<and>
      plan (formData st) \<noteq> p \<and>
      handleAiAutoFill (\<lambda>_. Some (Object e)) (Resolved (Some (lit ''{}''))) st =
        Returns (st', []) \<and>
      formData st' = (formData st)\<lparr>plan := p\<rparr> \<and>
      type (formData st') = type (formData st) \<and>
      network (formData st') = network (formData st) \<and>
      plan (formData st') = p \<and>
      plan (formData st') \<notin> set (catalog (formData st')) \<and>
      (\<exists>d. planEffect (formData st') = Returns d \<and> plan d \<in> set (catalog (formData st')))"
proof -
  let ?d = "initialFormData\<lparr>plan := lit ''249''\<rparr>"
  let ?d' = "initialFormData\<lparr>plan := lit ''999''\<rparr>"
  let ?st = "\<lparr>formData = ?d, rawInput = lit ''Asha wants the 999 plan'', isAiLoading = False\<rparr>"
  let ?e = "[''requestType'' \<mapsto> lit ''NEW'', ''network'' \<mapsto> lit ''AIRTEL'',
             ''planAmount'' \<mapsto> lit ''999'']"
  let ?st' = "\<lparr>formData = ?d', rawInput = lit ''Asha wants the 999 plan'', isAiLoading = False\<rparr>"
  have names: "lit ''NEW'' \<notin> set inherited_names" "lit ''AIRTEL'' \<notin> set inherited_names"
    by (simp_all add: inherited_names_def object_prototype_def lit_def)
  have cat: "catalog (initialFormData\<lparr>plan := q\<rparr>) = [lit ''249'', lit ''349'']" for q
    by (simp add: catalog_def PLANS_def initialFormData_def lit_def)
  have table: "getAvailablePlans (initialFormData\<lparr>plan := q\<rparr>) =
      Plan_list (catalog (initialFormData\<lparr>plan := q\<rparr>))" for q
    by (rule getAvailablePlans_table) (simp_all add: initialFormData_def names)
  have merged: "reconcile ?e ?d = ?d'"
    by (simp add: reconcile_def initialFormData_def lit_def)
  have prices: "lit ''999'' \<noteq> lit ''249''" "lit ''999'' \<noteq> lit ''349''" "lit ''999'' \<noteq> []"
    by (simp_all add: lit_def)
  have same: "type ?d' = type ?d" "network ?d' = network ?d"
    by simp_all
  have update: "setFormData (reconcile ?e) ?d = Returns ?d'"
    using table [of "lit ''999''"]
    by (simp add: setFormData_def Let_def merged render_def)
  have not_blank: "trim (lit ''Asha wants the 999 plan'') \<noteq> []"
    by (simp add: trim_def is_white_space_def lit_def)
  have handler: "handleAiAutoFill (\<lambda>_. Some (Object ?e)) (Resolved (Some (lit ''{}''))) ?st =
      Returns (?st', [])"
    using not_blank by (simp add: handleAiAutoFill_def update) (simp add: lit_def)
  have again: "planEffect ?d' = Returns (initialFormData\<lparr>plan := lit ''249''\<rparr>)"
    by (subst planEffect_table [OF table]) (simp add: cat prices)
  have "getAvailablePlans (formData ?st) = Plan_list (catalog (formData ?st)) \<and>
      plan (formData ?st) \<in> set (catalog (formData ?st)) \<and>
      ?e ''requestType'' = Some (type (formData ?st)) \<and>
      ?e ''network'' = Some (network (formData ?st)) \<and>
      ?e ''planAmount'' = Some (lit ''999'') \<and> lit ''999'' \<noteq> [] \<and>
      lit ''999'' \<notin> set (catalog (formData ?st)) \<and>
      plan (formData ?st) \<noteq> lit ''999'' \<and>
      handleAiAutoFill (\<lambda>_. Some (Object ?e)) (Resolved (Some (lit ''{}''))) ?st =
        Returns (?st', []) \<and>
      formData ?st' = (formData ?st)\<lparr>plan := lit ''999''\<rparr> \<and>
      type (formData ?st') = type (formData ?st) \<and>
      network (formData ?st') = network (formData ?st) \<and>
      plan (formData ?st') = lit ''999'' \<and>
      plan (formData ?st') \<notin> set (catalog (formData ?st')) \<and>
      (\<exists>d. planEffect (formData ?st') = Returns d \<and> plan d \<in> set (catalog (formData ?st')))"
    using prices by (simp add: handler table cat again) (simp add: initialFormData_def)
  then show ?thesis by blast
qed

text \<open>
  C9, as the code has it. When the extraction fails (the call rejects, the reply has no
  text or an empty one, or the text does not parse) the handler returns and the draft
  after it is the draft before it. When the failure is an exception (the call rejects, or
  a text that is not empty does not parse) and the input box was not blank, the handler
  shows its alert once and changes nothing but the loading flag.
\<close>

theorem failed_extraction_keeps_draft:
  "(extraction_failed JSON_parse response \<longrightarrow>
      (\<exists>st' alerts.
          handleAiAutoFill JSON_parse response st = Returns (st', alerts) \<and>
          formData st' = formData st \<and> rawInput st' = rawInput st)) \<and>
   (extraction_threw JSON_parse response \<and> trim (rawInput st) \<noteq> [] \<longrightarrow>
      handleAiAutoFill JSON_parse response st =
        Returns (st\<lparr>isAiLoading := False\<rparr>, [autofill_alert]))"
  by (auto simp: extraction_failed_def extraction_threw_def handleAiAutoFill_def
      split: ai_response.splits option.splits)

theorem failed_extraction_keeps_draft_witness:
  "handleAiAutoFill (\<lambda>_. None) Rejected app_typed = Returns (app_typed, [autofill_alert]) \<and>
   handleAiAutoFill (\<lambda>_. None) (Resolved (Some (lit ''not json''))) app_typed =
     Returns (app_typed, [autofill_alert]) \<and>
   (\<exists>st' alerts.
      handleAiAutoFill (\<lambda>_. None) (Resolved None) app_typed = Returns (st', alerts) \<and>
      formData st' = mounted \<and> rawInput st' = rawInput app_typed)"
  using
    failed_extraction_keeps_draft [of "\<lambda>_. None" Rejected app_typed]
    failed_extraction_keeps_draft [of "\<lambda>_. None" "Resolved (Some (lit ''not json''))" app_typed]
    failed_extraction_keeps_draft [of "\<lambda>_. None" "Resolved None" app_typed]
  by (simp add: extraction_failed_def extraction_threw_def trim_def is_white_space_def lit_def
      app_typed_def)

text \<open>
  C9 as the specification words it fails on a reply without text: it counts as a failed
  extraction, but the handler shows no alert for it.
\<close>

theorem empty_reply_not_reported:
  "extraction_failed (\<lambda>_. None) (Resolved (Some [])) \<and>
   extraction_failed (\<lambda>_. None) (Resolved None) \<and>
   trim (rawInput app_typed) \<noteq> [] \<and>
   handleAiAutoFill (\<lambda>_. None) (Resolved (Some [])) app_typed = Returns (app_typed, []) \<and>
   handleAiAutoFill (\<lambda>_. None) (Resolved None) app_typed = Returns (app_typed, [])"
  by (simp add: extraction_failed_def handleAiAutoFill_def trim_def is_white_space_def lit_def
      app_typed_def)


section \<open>Validation and the message\<close>

lemma message_format: "message d t = format_spec d t"
  by (simp add: message_def format_spec_def line_def Let_def int_toString_def DELIVERY_CHARGE_def
      digits.simps lit_def)

lemma order_jio_total: "toString (getTotalPrice order_jio) = Some (lit ''399'')"
  by (simp add: order_jio_def getTotalPrice_def parseInt_def is_white_space_def
      is_radix_digit_def digit_value_def radix_value_def number_of_int_def plus_number_def
      DELIVERY_CHARGE_def toString_def int_toString_def digits.simps lit_def)

text \<open>
  C1, as the code has it. When the name, the mobile number, the address or the plan is
  empty, \<open>handleSend\<close> rejects the order with one fixed alert, which does not name the
  fields. A draft that misses none of the fields of the specification is not rejected.
\<close>

theorem handleSend_required:
  "(name d = [] \<or> mobile d = [] \<or> address d = [] \<or> plan d = []
      \<longrightarrow> handleSend d = Returns (Alert required_alert)) \<and>
   (missingFields_spec d = [] \<longrightarrow> (\<forall>a. handleSend d \<noteq> Returns (Alert a)))"
  by (auto simp: handleSend_def missingFields_spec_def split: option.splits if_splits)

theorem handleSend_required_witness:
  "handleSend (order_jio\<lparr>address := [], transactionId := []\<rparr>) = Returns (Alert required_alert) \<and>
   missingFields_spec order_jio = [] \<and>
   handleSend order_jio \<noteq> Returns (Alert required_alert)"
  using handleSend_required [of "order_jio\<lparr>address := [], transactionId := []\<rparr>"]
    handleSend_required [of order_jio]
  by (simp add: missingFields_spec_def order_jio_def lit_def)

text \<open>
  C1 as the specification words it fails: a draft that misses the address and the UPI
  reference and a draft that misses only the name get the same alert, so the alert does
  not report which fields are missing.
\<close>

theorem handleSend_generic_alert:
  "missingFields_spec (order_jio\<lparr>address := [], transactionId := []\<rparr>) =
     [Address, TransactionReference] \<and>
   missingFields_spec (order_jio\<lparr>name := []\<rparr>) = [CustomerName] \<and>
   handleSend (order_jio\<lparr>address := [], transactionId := []\<rparr>) =
     Returns (Alert (lit ''Please fill all required fields (*)'')) \<and>
   handleSend (order_jio\<lparr>name := []\<rparr>) =
     Returns (Alert (lit ''Please fill all required fields (*)''))"
  by (simp add: missingFields_spec_def handleSend_def required_alert_def order_jio_def lit_def)

text \<open>
  The check of \<open>handleSend\<close> does not look at the transaction reference: the sample order
  goes out under UPI with an empty reference, and the message has no line for it.
\<close>

lemma handleSend_upi_without_reference:
  "handleSend (order_jio\<lparr>transactionId := []\<rparr>) =
     Returns (WindowOpen (lit ''https://wa.me/919360626529?text='' @
        lit ''%F0%9F%93%A9%20*SIM%20ORDER*%0A'' @
        lit ''%0A'' @
        lit ''%F0%9F%A7%91%20*Name%3A*%20Asha%0A'' @
        lit ''%F0%9F%93%9E%20*Mobile%3A*%209876543210%0A'' @
        lit ''%0A'' @
        lit ''%F0%9F%93%8C%20*Type%3A*%20NEW%0A'' @
        lit ''%F0%9F%93%B6%20*Network%3A*%20JIO%0A'' @
        lit ''%F0%9F%92%B0%20*Plan%3A*%20%E2%82%B9349%0A'' @
        lit ''%F0%9F%9A%9A%20*Delivery%3A*%20%E2%82%B950%0A'' @
        lit ''%F0%9F%92%B5%20*Total%3A*%20%E2%82%B9399%0A'' @
        lit ''%F0%9F%92%B3%20*Payment%3A*%20UPI%0A'' @
        lit ''%0A'' @
        lit ''%F0%9F%8F%A0%20*Address%3A*%2012%20Main%20Road%0A''))"
proof -
  let ?d = "order_jio\<lparr>transactionId := []\<rparr>"
  have total: "toString (getTotalPrice ?d) = Some (lit ''399'')"
    using order_jio_total by (simp add: getTotalPrice_def)
  have encoded: "encodeURIComponent (message ?d (lit ''399'')) =
     Some (lit ''%F0%9F%93%A9%20*SIM%20ORDER*%0A'' @
        lit ''%0A'' @
        lit ''%F0%9F%A7%91%20*Name%3A*%20Asha%0A'' @
        lit ''%F0%9F%93%9E%20*Mobile%3A*%209876543210%0A'' @
        lit ''%0A'' @
        lit ''%F0%9F%93%8C%20*Type%3A*%20NEW%0A'' @
        lit ''%F0%9F%93%B6%20*Network%3A*%20JIO%0A'' @
        lit ''%F0%9F%92%B0%20*Plan%3A*%20%E2%82%B9349%0A'' @
        lit ''%F0%9F%9A%9A%20*Delivery%3A*%20%E2%82%B950%0A'' @
        lit ''%F0%9F%92%B5%20*Total%3A*%20%E2%82%B9399%0A'' @
        lit ''%F0%9F%92%B3%20*Payment%3A*%20UPI%0A'' @
        lit ''%0A'' @
        lit ''%F0%9F%8F%A0%20*Address%3A*%2012%20Main%20Road%0A'')"
    unfolding message_format
    by (simp add: format_spec_def order_jio_def line_def nl_def rupee_def lit_def is_unescaped_def
        is_high_surrogate_def is_low_surrogate_def escape_def utf8_def code_point_def
        percent_octet_def hex_digit_def)
  have filled: "name order_jio \<noteq> []" "mobile order_jio \<noteq> []" "address order_jio \<noteq> []"
    "plan order_jio \<noteq> []"
    by (simp_all add: order_jio_def lit_def)
  show ?thesis
    by (simp add: handleSend_def total encoded filled WHATSAPP_NUMBER_def) (simp add: lit_def)
qed

text \<open>
  C8. For a draft that passes the check of \<open>handleSend\<close>, the text handed to WhatsApp is
  the percent-encoding of the message of the specification: the lines in the order name,
  mobile, request type, network, plan, delivery charge, total, payment method,
  transaction reference, address, location link, where the line of the transaction
  reference is there exactly when the payment method is UPI and the reference is not
  empty, the location exactly when the link is not empty, and a section that is left out
  contributes nothing.
\<close>

theorem handleSend_message:
  assumes "name d \<noteq> []" "mobile d \<noteq> []" "address d \<noteq> []" "plan d \<noteq> []"
    and "toString (getTotalPrice d) = Some t"
  shows "handleSend d =
           (case encodeURIComponent (format_spec d t) of
              None \<Rightarrow> URIError
            | Some text \<Rightarrow> Returns (WindowOpen (lit ''https://wa.me/919360626529?text='' @ text)))"
  using assms by (simp add: handleSend_def message_format WHATSAPP_NUMBER_def lit_def split: option.splits)

lemma order_jio_text:
  "encodeURIComponent (format_spec order_jio (lit ''399'')) =
     Some (lit ''%F0%9F%93%A9%20*SIM%20ORDER*%0A'' @
        lit ''%0A'' @
        lit ''%F0%9F%A7%91%20*Name%3A*%20Asha%0A'' @
        lit ''%F0%9F%93%9E%20*Mobile%3A*%209876543210%0A'' @
        lit ''%0A'' @
        lit ''%F0%9F%93%8C%20*Type%3A*%20NEW%0A'' @
        lit ''%F0%9F%93%B6%20*Network%3A*%20JIO%0A'' @
        lit ''%F0%9F%92%B0%20*Plan%3A*%20%E2%82%B9349%0A'' @
        lit ''%F0%9F%9A%9A%20*Delivery%3A*%20%E2%82%B950%0A'' @
        lit ''%F0%9F%92%B5%20*Total%3A*%20%E2%82%B9399%0A'' @
        lit ''%F0%9F%92%B3%20*Payment%3A*%20UPI%0A'' @
        lit ''%F0%9F%86%94%20*Txn%20ID%3A*%20UTR123456789%0A'' @
        lit ''%0A'' @
        lit ''%F0%9F%8F%A0%20*Address%3A*%2012%20Main%20Road%0A'')"
  by (simp add: format_spec_def order_jio_def line_def nl_def rupee_def lit_def is_unescaped_def
      is_high_surrogate_def is_low_surrogate_def escape_def utf8_def code_point_def
      percent_octet_def hex_digit_def)

theorem handleSend_message_witness:
  "handleSend order_jio =
     Returns (WindowOpen (lit ''https://wa.me/919360626529?text='' @
        lit ''%F0%9F%93%A9%20*SIM%20ORDER*%0A'' @
        lit ''%0A'' @
        lit ''%F0%9F%A7%91%20*Name%3A*%20Asha%0A'' @
        lit ''%F0%9F%93%9E%20*Mobile%3A*%209876543210%0A'' @
        lit ''%0A'' @
        lit ''%F0%9F%93%8C%20*Type%3A*%20NEW%0A'' @
        lit ''%F0%9F%93%B6%20*Network%3A*%20JIO%0A'' @
        lit ''%F0%9F%92%B0%20*Plan%3A*%20%E2%82%B9349%0A'' @
        lit ''%F0%9F%9A%9A%20*Delivery%3A*%20%E2%82%B950%0A'' @
        lit ''%F0%9F%92%B5%20*Total%3A*%20%E2%82%B9399%0A'' @
        lit ''%F0%9F%92%B3%20*Payment%3A*%20UPI%0A'' @
        lit ''%F0%9F%86%94%20*Txn%20ID%3A*%20UTR123456789%0A'' @
        lit ''%0A'' @
        lit ''%F0%9F%8F%A0%20*Address%3A*%2012%20Main%20Road%0A''))"
  using handleSend_message [of order_jio "lit ''399''"]
  by (simp add: order_jio_total order_jio_text) (simp add: order_jio_def lit_def)

end
